theory Spec2Isabelle
  imports Main "HOL-Library.Sublist"
begin

section \<open>JavaScript values, objects and strings\<close>

text \<open>
  The data-access module \<^verbatim>\<open>src/utils/dbUtils.js\<close> assembles SQL text from plain
  JavaScript objects and hands it to \<^verbatim>\<open>pool.query\<close>. The file holds the module
  twice; the definitions below follow the current copy (lines 1 to 329, the one with
  \<^verbatim>\<open>export default\<close> and the \<^verbatim>\<open>maxEntries\<close> option), not the older one after it,
  whose \<^verbatim>\<open>getEntry\<close> always has \<^verbatim>\<open>LIMIT 1\<close> and whose \<^verbatim>\<open>updateRecords\<close> throws
  when no row matched. The values stored under the
  keys of a condition, update or data object are scalars. Numbers are modelled as
  integers, which print in decimal (as JavaScript prints every integer of magnitude
  below \<open>10\<^sup>2\<^sup>1\<close>).
\<close>

datatype jsval = JUndefined | JNull | JBool bool | JNum int | JStr string

text \<open>
  A plain object is the list of its own enumerable properties in the order in which
  \<^verbatim>\<open>Object.entries\<close> yields them; \<^verbatim>\<open>Object.keys\<close> and \<^verbatim>\<open>Object.values\<close>
  follow the same order.
\<close>

type_synonym 'v jsobject = "(string \<times> 'v) list"

definition Object_entries :: "'v jsobject \<Rightarrow> (string \<times> 'v) list" where
  "Object_entries obj = obj"

definition Object_keys :: "'v jsobject \<Rightarrow> string list" where
  "Object_keys obj = map fst obj"

definition Object_values :: "'v jsobject \<Rightarrow> 'v list" where
  "Object_values obj = map snd obj"

type_synonym row = "jsval jsobject"

text \<open>Decimal printing of a number, as a template literal does for \<^verbatim>\<open>${index + 1}\<close>.\<close>

definition digit :: "nat \<Rightarrow> char" where
  "digit d = ''0123456789'' ! d"

fun show_nat :: "nat \<Rightarrow> string" where
  "show_nat n = (if n < 10 then [digit n] else show_nat (n div 10) @ [digit (n mod 10)])"

declare show_nat.simps [simp del]

definition show_int :: "int \<Rightarrow> string" where
  "show_int i = (if i < 0 then ''-'' @ show_nat (nat (- i)) else show_nat (nat i))"

text \<open>\<^verbatim>\<open>String(v)\<close>, the conversion a template literal applies to an interpolated value.\<close>

fun toString :: "jsval \<Rightarrow> string" where
  "toString JUndefined = ''undefined''"
| "toString JNull = ''null''"
| "toString (JBool b) = (if b then ''true'' else ''false'')"
| "toString (JNum n) = show_int n"
| "toString (JStr s) = s"

text \<open>\<^verbatim>\<open>Array.prototype.join\<close> on an array of strings.\<close>

fun join :: "string \<Rightarrow> string list \<Rightarrow> string" where
  "join sep [] = []"
| "join sep [x] = x"
| "join sep (x # y # ys) = x @ sep @ join sep (y # ys)"

text \<open>\<^verbatim>\<open>Array.prototype.map\<close> with a callback that takes the element and its index.\<close>

fun array_map_from :: "nat \<Rightarrow> ('a \<Rightarrow> nat \<Rightarrow> 'b) \<Rightarrow> 'a list \<Rightarrow> 'b list" where
  "array_map_from index f [] = []"
| "array_map_from index f (x # xs) = f x index # array_map_from (index + 1) f xs"

definition array_map :: "('a \<Rightarrow> nat \<Rightarrow> 'b) \<Rightarrow> 'a list \<Rightarrow> 'b list" where
  "array_map f xs = array_map_from 0 f xs"

section \<open>The connection pool\<close>

text \<open>
  An error is either the object the pool rejected with (a \<^verbatim>\<open>DatabaseError\<close> of the
  driver, which carries an SQLSTATE code beside its message) or a fresh
  \<^verbatim>\<open>new Error(message)\<close> built by the module.
\<close>

datatype js_error = Error (message: string) | DatabaseError (message: string) (code: string)

text \<open>
  A statement is the text and the positional parameters passed to \<^verbatim>\<open>pool.query\<close>;
  a call with the text alone has the empty parameter list. The pool resolves with a
  result holding \<^verbatim>\<open>rows\<close> and \<^verbatim>\<open>rowCount\<close>, or rejects with an error; either way
  it may change the store behind it.
\<close>

type_synonym statement = "string \<times> jsval list"

record query_result =
  rows :: "row list"
  rowCount :: nat

type_synonym 's pool = "statement \<Rightarrow> 's \<Rightarrow> (js_error + query_result) \<times> 's"

text \<open>
  A session pairs the store with the statements issued so far, so that what an
  operation sends to the pool can be observed.
\<close>

record 's session =
  store :: 's
  issued :: "statement list"

definition pool_query :: "'s pool \<Rightarrow> statement \<Rightarrow> 's session
    \<Rightarrow> (js_error + query_result) \<times> 's session" where
  "pool_query pool q c =
     (case pool q (store c) of
        (outcome, s') \<Rightarrow> (outcome, c\<lparr>store := s', issued := issued c @ [q]\<rparr>))"

text \<open>What the operations return: a row, an array of rows, a count, or null/undefined.\<close>

datatype js_ret = Undefined | Null | Number nat | RowObject row | RowArray "row list"

text \<open>\<^verbatim>\<open>result.rows[0]\<close>: reading past the end of a JavaScript array gives undefined.\<close>

definition rows_at :: "row list \<Rightarrow> nat \<Rightarrow> js_ret" where
  "rows_at rs i = (if i < length rs then RowObject (rs ! i) else Undefined)"

fun truthy :: "js_ret \<Rightarrow> bool" where
  "truthy Undefined = False"
| "truthy Null = False"
| "truthy (Number n) = (n \<noteq> 0)"
| "truthy (RowObject r) = True"
| "truthy (RowArray rs) = True"

section \<open>Existence checks\<close>

text \<open>
  \<^verbatim>\<open>checkDatabaseExists(databaseName, pool, verbose)\<close> and
  \<^verbatim>\<open>checkTableExists(tableName, pool, schemaName = 'public', verbose)\<close>. The
  \<^verbatim>\<open>verbose\<close> flag only prints to the console and is left out, as is every
  \<^verbatim>\<open>console.error\<close> of the module. An absent \<^verbatim>\<open>schemaName\<close> is \<open>None\<close>.
  Each operation is written in two parts, as its body is: the statement it builds, and
  the \<^verbatim>\<open>try\<close>/\<^verbatim>\<open>catch\<close> around \<^verbatim>\<open>await pool.query(...)\<close>.
\<close>

definition checkDatabaseExists_statement :: "string \<Rightarrow> statement" where
  "checkDatabaseExists_statement databaseName =
     (''SELECT 1 FROM pg_database WHERE datname = $1'', [JStr databaseName])"

definition checkDatabaseExists :: "string \<Rightarrow> 's pool \<Rightarrow> 's session \<Rightarrow> (js_error + bool) \<times> 's session" where
  "checkDatabaseExists databaseName pool c =
     (case pool_query pool (checkDatabaseExists_statement databaseName) c of
        (Inr result, c') \<Rightarrow> (Inr (rowCount result > 0), c')
      | (Inl error, c') \<Rightarrow> (Inr False, c'))"

definition checkTableExists_statement :: "string \<Rightarrow> string option \<Rightarrow> statement" where
  "checkTableExists_statement tableName schemaName_arg =
     (let schemaName = (case schemaName_arg of None \<Rightarrow> ''public'' | Some s \<Rightarrow> s)
      in (''SELECT 1 FROM information_schema.tables WHERE table_schema = $1 AND table_name = $2'',
          [JStr schemaName, JStr tableName]))"

definition checkTableExists :: "string \<Rightarrow> 's pool \<Rightarrow> string option \<Rightarrow> 's session
    \<Rightarrow> (js_error + bool) \<times> 's session" where
  "checkTableExists tableName pool schemaName_arg c =
     (case pool_query pool (checkTableExists_statement tableName schemaName_arg) c of
        (Inr result, c') \<Rightarrow> (Inr (rowCount result > 0), c')
      | (Inl error, c') \<Rightarrow> (Inl error, c'))"

section \<open>Table operations\<close>

text \<open>\<^verbatim>\<open>createTable(tableName, pool, columnsDefinition)\<close> resolves with no value.\<close>

definition createTable_statement :: "string \<Rightarrow> string \<Rightarrow> statement" where
  "createTable_statement tableName columnsDefinition =
     (''CREATE TABLE IF NOT EXISTS '' @ tableName @ '' ('' @ columnsDefinition @ '')'', [])"

definition createTable :: "string \<Rightarrow> 's pool \<Rightarrow> string \<Rightarrow> 's session \<Rightarrow> (js_error + unit) \<times> 's session" where
  "createTable tableName pool columnsDefinition c =
     (case pool_query pool (createTable_statement tableName columnsDefinition) c of
        (Inr result, c') \<Rightarrow> (Inr (), c')
      | (Inl error, c') \<Rightarrow> (Inl error, c'))"

text \<open>
  \<^verbatim>\<open>addRow(tableName, data, pool)\<close>: every value is interpolated between two
  apostrophes, and \<^verbatim>\<open>pool.query(query)\<close> is called with the text alone.
\<close>

definition apostrophe :: string where
  "apostrophe = [CHR 0x27]"

definition addRow_statement :: "string \<Rightarrow> jsval jsobject \<Rightarrow> statement" where
  "addRow_statement tableName data =
     (let columns = join '', '' (Object_keys data);
          values = join '', '' (map (\<lambda>value. apostrophe @ toString value @ apostrophe) (Object_values data));
          query = ''INSERT INTO '' @ tableName @ '' ('' @ columns @ '') VALUES ('' @ values @ '') RETURNING *''
      in (query, []))"

definition addRow :: "string \<Rightarrow> jsval jsobject \<Rightarrow> 's pool \<Rightarrow> 's session \<Rightarrow> (js_error + js_ret) \<times> 's session" where
  "addRow tableName data pool c =
     (case pool_query pool (addRow_statement tableName data) c of
        (Inr result, c') \<Rightarrow> (Inr (rows_at (rows result) 0), c')
      | (Inl error, c') \<Rightarrow> (Inl error, c'))"

text \<open>\<^verbatim>\<open>getAllFromTable(tableName, pool)\<close> returns \<^verbatim>\<open>result.rows\<close> as it is.\<close>

definition getAllFromTable_statement :: "string \<Rightarrow> statement" where
  "getAllFromTable_statement tableName = (''SELECT * FROM '' @ tableName, [])"

definition getAllFromTable :: "string \<Rightarrow> 's pool \<Rightarrow> 's session \<Rightarrow> (js_error + js_ret) \<times> 's session" where
  "getAllFromTable tableName pool c =
     (case pool_query pool (getAllFromTable_statement tableName) c of
        (Inr result, c') \<Rightarrow> (Inr (RowArray (rows result)), c')
      | (Inl error, c') \<Rightarrow> (Inl error, c'))"

section \<open>Conditional select, delete and update\<close>

text \<open>
  The options object: \<^verbatim>\<open>fields\<close> is a string or an array of strings, \<^verbatim>\<open>sort\<close>
  an object from column to direction, \<^verbatim>\<open>maxEntries\<close> a number, \<^verbatim>\<open>returning\<close> a
  flag. An absent property is \<open>None\<close> (for the flag, \<open>False\<close>); \<open>no_options\<close> is the
  default \<^verbatim>\<open>{}\<close>.
\<close>

datatype fields_value = FieldString string | FieldArray "string list"

record options =
  fields_option :: "fields_value option"
  sort_option :: "string jsobject option"
  maxEntries :: "int option"
  returning :: bool

definition no_options :: options where
  "no_options = \<lparr>fields_option = None, sort_option = None, maxEntries = None, returning = False\<rparr>"

text \<open>
  The loop \<^verbatim>\<open>Object.entries(conditions).forEach(([column, value], index) => ...)\<close>
  of \<^verbatim>\<open>getEntry\<close> and \<^verbatim>\<open>deleteEntry\<close>, which pushes onto \<^verbatim>\<open>whereClauses\<close> and
  \<^verbatim>\<open>whereParams\<close>.
\<close>

fun forEach_condition :: "(string \<times> jsval) list \<Rightarrow> nat \<Rightarrow> string list \<times> jsval list
    \<Rightarrow> string list \<times> jsval list" where
  "forEach_condition [] index (whereClauses, whereParams) = (whereClauses, whereParams)"
| "forEach_condition ((column, value) # entries) index (whereClauses, whereParams) =
     forEach_condition entries (index + 1)
       (whereClauses @ [column @ '' = $'' @ show_nat (index + 1)], whereParams @ [value])"

definition getEntry_fields :: "options \<Rightarrow> string" where
  "getEntry_fields opts =
     (case fields_option opts of
        None \<Rightarrow> ''*''
      | Some (FieldString s) \<Rightarrow> (if length s > 0 then s else ''*'')
      | Some (FieldArray xs) \<Rightarrow> (if length xs > 0 then join '', '' xs else ''*''))"

definition getEntry_limit :: "options \<Rightarrow> int" where
  "getEntry_limit opts = (case maxEntries opts of None \<Rightarrow> 1 | Some n \<Rightarrow> (if n \<noteq> 0 then n else 1))"

definition getEntry_statement :: "string \<Rightarrow> jsval jsobject \<Rightarrow> options \<Rightarrow> statement" where
  "getEntry_statement tableName conditions opts =
     (let fields = getEntry_fields opts;
          (whereClauses, whereParams) = forEach_condition (Object_entries conditions) 0 ([], []);
          whereClause = (if length whereClauses > 0 then ''WHERE '' @ join '' AND '' whereClauses else []);
          orderByClause =
            (case sort_option opts of
               None \<Rightarrow> []
             | Some sort_object \<Rightarrow>
                 (let sortItems = join '', '' (map (\<lambda>(field, direction). field @ '' '' @ direction)
                                                  (Object_entries sort_object))
                  in if sortItems \<noteq> [] then ''ORDER BY '' @ sortItems else []));
          limit = getEntry_limit opts;
          query = ''SELECT '' @ fields @ '' FROM '' @ tableName @ '' '' @ whereClause @ '' ''
                    @ orderByClause @ '' LIMIT '' @ show_int limit
      in (query, whereParams))"

definition getEntry :: "string \<Rightarrow> jsval jsobject \<Rightarrow> 's pool \<Rightarrow> options \<Rightarrow> 's session
    \<Rightarrow> (js_error + js_ret) \<times> 's session" where
  "getEntry tableName conditions pool opts c =
     (case pool_query pool (getEntry_statement tableName conditions opts) c of
        (Inr result, c') \<Rightarrow>
          (if (case maxEntries opts of None \<Rightarrow> False | Some n \<Rightarrow> n \<noteq> 0 \<and> n > 1)
           then Inr (if length (rows result) > 0 then RowArray (rows result) else Null)
           else Inr (if length (rows result) > 0 then rows_at (rows result) 0 else Null), c')
      | (Inl error, c') \<Rightarrow>
          (Inl (Error (''Failed to retrieve entry from '' @ tableName @ '': '' @ message error)), c'))"

text \<open>
  \<^verbatim>\<open>deleteEntry(tableName, conditions, pool, options = {})\<close> throws before it builds
  the text when no clause was pushed.
\<close>

definition deleteEntry_statement :: "string \<Rightarrow> jsval jsobject \<Rightarrow> options \<Rightarrow> js_error + statement" where
  "deleteEntry_statement tableName conditions opts =
     (let (whereClauses, whereParams) = forEach_condition (Object_entries conditions) 0 ([], [])
      in if length whereClauses = 0
         then Inl (Error ''At least one condition is required for safety'')
         else (let returningClause = (if returning opts then ''RETURNING *'' else []);
                   query = ''DELETE FROM '' @ tableName @ '' WHERE '' @ join '' AND '' whereClauses
                             @ '' '' @ returningClause
               in Inr (query, whereParams)))"

definition deleteEntry :: "string \<Rightarrow> jsval jsobject \<Rightarrow> 's pool \<Rightarrow> options \<Rightarrow> 's session
    \<Rightarrow> (js_error + js_ret) \<times> 's session" where
  "deleteEntry tableName conditions pool opts c =
     (case deleteEntry_statement tableName conditions opts of
        Inl validation \<Rightarrow> (Inl validation, c)
      | Inr q \<Rightarrow>
          (case pool_query pool q c of
             (Inr result, c') \<Rightarrow>
               (Inr (if returning opts
                     then (if truthy (rows_at (rows result) 0) then rows_at (rows result) 0 else Null)
                     else Number (rowCount result)), c')
           | (Inl error, c') \<Rightarrow>
               (Inl (Error (''Failed to delete entry from '' @ tableName @ '': '' @ message error)), c')))"

text \<open>\<^verbatim>\<open>updateRecords(tableName, pool, conditions, updates)\<close>.\<close>

definition updateRecords_statement :: "string \<Rightarrow> jsval jsobject \<Rightarrow> jsval jsobject \<Rightarrow> statement" where
  "updateRecords_statement tableName conditions updates =
     (let setClause = join '', '' (array_map (\<lambda>key index. key @ '' = $'' @ show_nat (index + 1))
                                     (Object_keys updates));
          values = Object_values updates;
          (whereClause, values) =
            (if length (Object_keys conditions) > 0
             then (''WHERE '' @ join '' AND ''
                      (array_map (\<lambda>key index. key @ '' = $''
                                     @ show_nat (index + 1 + length (Object_keys updates)))
                         (Object_keys conditions)),
                   values @ Object_values conditions)
             else ([], values));
          query = ''UPDATE '' @ tableName @ '' SET '' @ setClause @ '' '' @ whereClause @ '' RETURNING * ''
      in (query, values))"

definition updateRecords :: "string \<Rightarrow> 's pool \<Rightarrow> jsval jsobject \<Rightarrow> jsval jsobject \<Rightarrow> 's session
    \<Rightarrow> (js_error + js_ret) \<times> 's session" where
  "updateRecords tableName pool conditions updates c =
     (case pool_query pool (updateRecords_statement tableName conditions updates) c of
        (Inr result, c') \<Rightarrow> (Inr (RowArray (rows result)), c')
      | (Inl error, c') \<Rightarrow> (Inl (Error (''Failed to update records: '' @ message error)), c'))"

section \<open>Pools used in the worked examples\<close>

text \<open>A pool that rejects every statement, and one that resolves every statement alike.\<close>

definition rejecting_pool :: "js_error \<Rightarrow> unit pool" where
  "rejecting_pool e = (\<lambda>q s. (Inl e, s))"

definition resolving_pool :: "query_result \<Rightarrow> unit pool" where
  "resolving_pool r = (\<lambda>q s. (Inr r, s))"

definition fresh :: "unit session" where
  "fresh = \<lparr>store = (), issued = []\<rparr>"

text \<open>
  A pool over a store that is one table, the list of its rows. It executes one
  statement, the update of \<^verbatim>\<open>name\<close> without a \<^verbatim>\<open>WHERE\<close> clause, the way the
  database does: every row is updated and returned. \<open>two_users\<close> is a table of two
  rows.
\<close>

definition set_column :: "string \<Rightarrow> jsval \<Rightarrow> row \<Rightarrow> row" where
  "set_column col v r = map (\<lambda>(k, old). if k = col then (k, v) else (k, old)) r"

definition rename_all_pool :: "row list pool" where
  "rename_all_pool q s =
     (case q of
        (text, [v]) \<Rightarrow>
          (if text = ''UPDATE users SET name = $1  RETURNING * ''
           then (let s' = map (set_column ''name'' v) s
                 in (Inr \<lparr>rows = s', rowCount = length s'\<rparr>, s'))
           else (Inl (DatabaseError ''unsupported statement'' ''0A000''), s))
      | _ \<Rightarrow> (Inl (DatabaseError ''unsupported statement'' ''0A000''), s))"

definition two_users :: "row list" where
  "two_users = [[(''id'', JNum 1), (''name'', JStr ''Alice'')], [(''id'', JNum 2), (''name'', JStr ''Carol'')]]"

section \<open>The forms the specification gives\<close>

text \<open>
  The specification writes a condition list as \<^verbatim>\<open>col1 = $1 AND col2 = $2 ...\<close>, numbered
  in iteration order; in an update the numbering of the conditions continues after the
  \<^verbatim>\<open>SET\<close> placeholders. \<open>spec_equalities offset cols\<close> is that list of equalities, the
  first one numbered \<open>offset + 1\<close>.
\<close>

definition spec_equalities :: "nat \<Rightarrow> string list \<Rightarrow> string list" where
  "spec_equalities offset cols =
     map (\<lambda>i. cols ! i @ '' = $'' @ show_nat (offset + i + 1)) [0..<length cols]"

text \<open>
  Result shaping of \<^verbatim>\<open>getEntry\<close> in the specification's words: the first row when
  \<^verbatim>\<open>maxEntries\<close> was not supplied or is at most 1, the whole array when it is greater
  than 1, and null in both cases when no row matched.
\<close>

definition spec_getEntry_result :: "int option \<Rightarrow> row list \<Rightarrow> js_ret" where
  "spec_getEntry_result m rs =
     (case m of
        None \<Rightarrow> (case rs of [] \<Rightarrow> Null | r # _ \<Rightarrow> RowObject r)
      | Some n \<Rightarrow>
          (if n \<le> 1 then (case rs of [] \<Rightarrow> Null | r # _ \<Rightarrow> RowObject r)
           else (case rs of [] \<Rightarrow> Null | _ # _ \<Rightarrow> RowArray rs)))"

text \<open>
  The limit in the specification's words: \<^verbatim>\<open>maxEntries\<close> if provided and greater than
  0, else 1.
\<close>

definition spec_limit :: "int option \<Rightarrow> int" where
  "spec_limit m = (case m of None \<Rightarrow> 1 | Some n \<Rightarrow> (if n > 0 then n else 1))"

section \<open>Properties\<close>

lemma pool_query_Inr:
  "pool q (store c) = (Inr r, s') \<Longrightarrow>
   pool_query pool q c = (Inr r, c\<lparr>store := s', issued := issued c @ [q]\<rparr>)"
  by (simp add: pool_query_def)

lemma pool_query_Inl:
  "pool q (store c) = (Inl e, s') \<Longrightarrow>
   pool_query pool q c = (Inl e, c\<lparr>store := s', issued := issued c @ [q]\<rparr>)"
  by (simp add: pool_query_def)

subsection \<open>The loops compute the numbered equalities\<close>

lemma forEach_condition_eq:
  "forEach_condition entries k (cl, ps) =
     (cl @ map (\<lambda>i. fst (entries ! i) @ '' = $'' @ show_nat (k + i + 1)) [0..<length entries],
      ps @ map snd entries)"
proof (induction entries arbitrary: k cl ps)
  case Nil
  show ?case by simp
next
  case (Cons entry entries)
  obtain column val where entry: "entry = (column, val)" by (cases entry)
  show ?case
    unfolding entry by (simp add: Cons.IH map_upt_Suc del: upt_Suc)
qed

lemma forEach_condition_spec:
  "forEach_condition (Object_entries conds) 0 ([], []) =
     (spec_equalities 0 (map fst conds), map snd conds)"
  by (simp add: forEach_condition_eq Object_entries_def spec_equalities_def)

lemma array_map_from_eq:
  "array_map_from k f xs = map (\<lambda>i. f (xs ! i) (k + i)) [0..<length xs]"
proof (induction xs arbitrary: k)
  case Nil
  show ?case by simp
next
  case (Cons x xs)
  show ?case by (simp add: Cons.IH map_upt_Suc del: upt_Suc)
qed

lemma array_map_spec:
  "array_map (\<lambda>key index. key @ '' = $'' @ show_nat (index + 1 + offset)) cols
     = spec_equalities offset cols"
  by (simp add: array_map_def array_map_from_eq spec_equalities_def add.commute add.left_commute)

lemma array_map_spec0:
  "array_map (\<lambda>key index. key @ '' = $'' @ show_nat (index + 1)) cols = spec_equalities 0 cols"
  using array_map_spec [of 0 cols] by simp

lemma spec_equalities_Nil_iff: "spec_equalities offset cols = [] \<longleftrightarrow> cols = []"
  by (simp add: spec_equalities_def)

lemma join_Cons_nonempty: "x \<noteq> [] \<Longrightarrow> join sep (x # xs) \<noteq> []"
  by (cases xs) auto

subsection \<open>Every operation issues the statement it builds\<close>

lemma issued_getEntry:
  "issued (snd (getEntry t conds pool opts c)) = issued c @ [getEntry_statement t conds opts]"
  by (simp add: getEntry_def pool_query_def split: prod.splits sum.splits)

lemma issued_updateRecords:
  "issued (snd (updateRecords t pool conds upds c)) = issued c @ [updateRecords_statement t conds upds]"
  by (simp add: updateRecords_def pool_query_def split: prod.splits sum.splits)

lemma issued_addRow:
  "issued (snd (addRow t data pool c)) = issued c @ [addRow_statement t data]"
  by (simp add: addRow_def pool_query_def split: prod.splits sum.splits)

lemma issued_deleteEntry:
  "deleteEntry_statement t conds opts = Inr q \<Longrightarrow>
   issued (snd (deleteEntry t conds pool opts c)) = issued c @ [q]"
  by (simp add: deleteEntry_def pool_query_def split: prod.splits sum.splits)

section \<open>Claims\<close>

text \<open>
  C1. For every condition object with at least one entry, \<open>deleteEntry\<close> issues exactly
  one statement, a \<^verbatim>\<open>DELETE\<close> whose conditions are numbered \<^verbatim>\<open>$1\<close>, \<^verbatim>\<open>$2\<close>, ... in
  iteration order and whose parameter list is the condition values in that order. For
  the empty condition object it raises the error \<^verbatim>\<open>At least one condition is required
  for safety\<close> and leaves the session as it was: nothing is issued and the store is
  untouched.
\<close>

theorem deleteEntry_binds_or_refuses:
  "(conds \<noteq> [] \<longrightarrow>
      deleteEntry_statement t conds opts =
        Inr (''DELETE FROM '' @ t @ '' WHERE '' @ join '' AND '' (spec_equalities 0 (map fst conds))
               @ '' '' @ (if returning opts then ''RETURNING *'' else []),
             map snd conds)
    \<and> issued (snd (deleteEntry t conds pool opts c)) =
        issued c @ [(''DELETE FROM '' @ t @ '' WHERE '' @ join '' AND '' (spec_equalities 0 (map fst conds))
                       @ '' '' @ (if returning opts then ''RETURNING *'' else []),
                     map snd conds)])
   \<and> deleteEntry t [] pool opts c = (Inl (Error ''At least one condition is required for safety''), c)"
proof -
  have stmt: "deleteEntry_statement t conds opts =
        Inr (''DELETE FROM '' @ t @ '' WHERE '' @ join '' AND '' (spec_equalities 0 (map fst conds))
               @ '' '' @ (if returning opts then ''RETURNING *'' else []),
             map snd conds)" if "conds \<noteq> []"
    using that by (simp add: deleteEntry_statement_def forEach_condition_spec spec_equalities_Nil_iff)
  have empty: "deleteEntry_statement t [] opts = Inl (Error ''At least one condition is required for safety'')"
    by (simp add: deleteEntry_statement_def forEach_condition_spec spec_equalities_Nil_iff)
  have refuse: "deleteEntry t [] pool opts c = (Inl (Error ''At least one condition is required for safety''), c)"
    by (simp add: deleteEntry_def empty)
  show ?thesis
    using stmt issued_deleteEntry [of t conds opts _ pool c] refuse by auto
qed

text \<open>The theorem at \<^verbatim>\<open>deleteEntry('users', {id: 7, name: 'Al'}, pool)\<close> and at \<^verbatim>\<open>{}\<close>.\<close>

theorem deleteEntry_binds_or_refuses_witness:
  "[(''id'', JNum 7), (''name'', JStr ''Al'')] \<noteq> []
   \<and> deleteEntry_statement ''users'' [(''id'', JNum 7), (''name'', JStr ''Al'')] no_options
       = Inr (''DELETE FROM users WHERE id = $1 AND name = $2 '', [JNum 7, JStr ''Al''])
   \<and> issued (snd (deleteEntry ''users'' [(''id'', JNum 7), (''name'', JStr ''Al'')]
                     (resolving_pool \<lparr>rows = [], rowCount = 1\<rparr>) no_options fresh))
       = [(''DELETE FROM users WHERE id = $1 AND name = $2 '', [JNum 7, JStr ''Al''])]
   \<and> deleteEntry ''users'' [] (resolving_pool \<lparr>rows = [], rowCount = 1\<rparr>) no_options fresh
       = (Inl (Error ''At least one condition is required for safety''), fresh)"
proof -
  have eqs: "spec_equalities 0 [''id'', ''name''] = [''id = $1'', ''name = $2'']"
    by code_simp
  show ?thesis
    using deleteEntry_binds_or_refuses [of "[(''id'', JNum 7), (''name'', JStr ''Al'')]" "''users''" no_options
        "resolving_pool \<lparr>rows = [], rowCount = 1\<rparr>" fresh]
    by (simp add: eqs no_options_def fresh_def)
qed

text \<open>
  C2. When the pool resolves, \<open>getEntry\<close> returns the first row if \<^verbatim>\<open>maxEntries\<close> was
  not supplied or is at most 1, and the whole array of rows if it is greater than 1; in
  both cases it returns null when the result has no row. Whatever the pool does,
  \<open>getEntry\<close> never returns an empty array.
\<close>

theorem getEntry_result_shaping:
  "(pool (getEntry_statement t conds opts) (store c) = (Inr result, s') \<longrightarrow>
      fst (getEntry t conds pool opts c) = Inr (spec_getEntry_result (maxEntries opts) (rows result)))
   \<and> fst (getEntry t conds pool opts c) \<noteq> Inr (RowArray [])"
proof -
  have shape: "fst (getEntry t conds pool opts c) = Inr (spec_getEntry_result (maxEntries opts) (rows result))"
    if "pool (getEntry_statement t conds opts) (store c) = (Inr result, s')"
    using that
    by (auto simp: getEntry_def pool_query_Inr spec_getEntry_result_def rows_at_def
             split: option.splits list.splits)
  have never: "fst (getEntry t conds pool opts c) \<noteq> Inr (RowArray [])"
    by (auto simp: getEntry_def pool_query_def rows_at_def split: prod.splits sum.splits option.splits)
  show ?thesis using shape never by blast
qed

text \<open>The theorem at a lookup by \<^verbatim>\<open>{id: 1}\<close> that matches no row: the result is null.\<close>

theorem getEntry_result_shaping_witness:
  "resolving_pool \<lparr>rows = [], rowCount = 0\<rparr> (getEntry_statement ''users'' [(''id'', JNum 1)] no_options) (store fresh)
     = (Inr \<lparr>rows = [], rowCount = 0\<rparr>, ())
   \<and> fst (getEntry ''users'' [(''id'', JNum 1)] (resolving_pool \<lparr>rows = [], rowCount = 0\<rparr>) no_options fresh) = Inr Null"
  using getEntry_result_shaping [of "resolving_pool \<lparr>rows = [], rowCount = 0\<rparr>" "''users''" "[(''id'', JNum 1)]"
      no_options fresh "\<lparr>rows = [], rowCount = 0\<rparr>" "()"]
  by (simp add: resolving_pool_def spec_getEntry_result_def no_options_def)

text \<open>
  C3, as the specification states it, asks for \<^verbatim>\<open>LIMIT 1\<close> whenever \<^verbatim>\<open>maxEntries\<close>
  is not positive. The source tests \<^verbatim>\<open>options.maxEntries ? options.maxEntries : 1\<close>,
  and a negative number is truthy: \<^verbatim>\<open>getEntry('users', {}, pool, {maxEntries: -5})\<close>
  builds a statement that ends in \<^verbatim>\<open>LIMIT -5\<close>.
\<close>

theorem getEntry_limit_negative_counterexample:
  "fst (getEntry_statement ''users'' [] (no_options\<lparr>maxEntries := Some (- 5)\<rparr>))
     = ''SELECT * FROM users   LIMIT -5''
   \<and> \<not> suffix ('' LIMIT '' @ show_int (spec_limit (Some (- 5))))
         (fst (getEntry_statement ''users'' [] (no_options\<lparr>maxEntries := Some (- 5)\<rparr>)))"
  by code_simp

text \<open>
  C3, amended. The statement \<open>getEntry\<close> issues ends in \<^verbatim>\<open>LIMIT n\<close>, where \<open>n\<close> is
  \<^verbatim>\<open>maxEntries\<close> when it is supplied and not zero (a negative value is embedded as it
  is), and 1 when it is absent or zero. For every \<^verbatim>\<open>maxEntries\<close> that is absent or not
  negative this is the limit the specification gives.
\<close>

theorem getEntry_limit_truthy:
  "suffix ('' LIMIT '' @ show_int (case maxEntries opts of None \<Rightarrow> 1 | Some n \<Rightarrow> (if n = 0 then 1 else n)))
     (fst (getEntry_statement t conds opts))
   \<and> issued (snd (getEntry t conds pool opts c)) = issued c @ [getEntry_statement t conds opts]
   \<and> ((case maxEntries opts of None \<Rightarrow> True | Some n \<Rightarrow> 0 \<le> n) \<longrightarrow>
        getEntry_limit opts = spec_limit (maxEntries opts))"
proof -
  have lim: "getEntry_limit opts = (case maxEntries opts of None \<Rightarrow> 1 | Some n \<Rightarrow> (if n = 0 then 1 else n))"
    by (simp add: getEntry_limit_def split: option.splits)
  have "\<exists>pre. fst (getEntry_statement t conds opts) = pre @ '' LIMIT '' @ show_int (getEntry_limit opts)"
    by (simp add: getEntry_statement_def Let_def split: prod.splits)
  then have 1: "suffix ('' LIMIT '' @ show_int (case maxEntries opts of None \<Rightarrow> 1 | Some n \<Rightarrow> (if n = 0 then 1 else n)))
     (fst (getEntry_statement t conds opts))"
    unfolding lim suffix_def by blast
  have 3: "getEntry_limit opts = spec_limit (maxEntries opts)"
    if "case maxEntries opts of None \<Rightarrow> True | Some n \<Rightarrow> 0 \<le> n"
    using that by (auto simp: getEntry_limit_def spec_limit_def split: option.splits)
  show ?thesis using 1 3 issued_getEntry [of t conds pool opts c] by blast
qed

text \<open>The theorem at \<^verbatim>\<open>{maxEntries: 3}\<close>.\<close>

theorem getEntry_limit_truthy_witness:
  "(case maxEntries (no_options\<lparr>maxEntries := Some 3\<rparr>) of None \<Rightarrow> True | Some n \<Rightarrow> 0 \<le> n)
   \<and> suffix '' LIMIT 3'' (fst (getEntry_statement ''users'' [] (no_options\<lparr>maxEntries := Some 3\<rparr>)))
   \<and> getEntry_limit (no_options\<lparr>maxEntries := Some 3\<rparr>) = spec_limit (Some 3)"
proof -
  have three: "show_int 3 = ''3''" by code_simp
  show ?thesis
    using getEntry_limit_truthy [of "no_options\<lparr>maxEntries := Some 3\<rparr>" "''users''" "[]"
        "resolving_pool \<lparr>rows = [], rowCount = 0\<rparr>" fresh]
    by (simp add: three)
qed

text \<open>
  C4. The statement \<open>updateRecords\<close> builds is
  \<^verbatim>\<open>UPDATE <table> SET col1 = $1, ... <where> RETURNING *\<close>: the \<^verbatim>\<open>WHERE\<close> placeholders
  are numbered on from the number of \<^verbatim>\<open>SET\<close> placeholders, the parameter list is the
  update values followed by the condition values, and for the empty condition object
  there is no \<^verbatim>\<open>WHERE\<close> clause at all, so that the statement restricts no row. This
  statement is the one statement \<open>updateRecords\<close> issues, and the call does to the
  session exactly what \<^verbatim>\<open>pool.query\<close> does with it: the store after the call is the
  store the pool leaves, and on success the rows returned are the rows the pool
  returned. So the rows that the database updates for a statement without a
  \<^verbatim>\<open>WHERE\<close> clause, which are all the rows of the table, are updated in the store and
  returned by \<open>updateRecords\<close>.
\<close>

theorem updateRecords_statement_form:
  "updateRecords_statement t conds upds =
     (''UPDATE '' @ t @ '' SET '' @ join '', '' (spec_equalities 0 (map fst upds)) @ '' ''
        @ (if conds = [] then []
           else ''WHERE '' @ join '' AND '' (spec_equalities (length upds) (map fst conds)))
        @ '' RETURNING * '',
      map snd upds @ map snd conds)
   \<and> issued (snd (updateRecords t pool conds upds c)) = issued c @ [updateRecords_statement t conds upds]
   \<and> snd (updateRecords t pool conds upds c) = snd (pool_query pool (updateRecords_statement t conds upds) c)
   \<and> store (snd (updateRecords t pool conds upds c)) = snd (pool (updateRecords_statement t conds upds) (store c))
   \<and> (pool (updateRecords_statement t conds upds) (store c) = (Inr result, s') \<longrightarrow>
        updateRecords t pool conds upds c
          = (Inr (RowArray (rows result)),
             c\<lparr>store := s', issued := issued c @ [updateRecords_statement t conds upds]\<rparr>))"
proof -
  have form: "updateRecords_statement t conds upds =
     (''UPDATE '' @ t @ '' SET '' @ join '', '' (spec_equalities 0 (map fst upds)) @ '' ''
        @ (if conds = [] then []
           else ''WHERE '' @ join '' AND '' (spec_equalities (length upds) (map fst conds)))
        @ '' RETURNING * '',
      map snd upds @ map snd conds)"
    unfolding updateRecords_statement_def array_map_spec array_map_spec0
    by (simp add: Object_keys_def Object_values_def)
  have session: "snd (updateRecords t pool conds upds c)
      = snd (pool_query pool (updateRecords_statement t conds upds) c)"
    by (simp add: updateRecords_def split: prod.splits sum.splits)
  have store: "store (snd (updateRecords t pool conds upds c))
      = snd (pool (updateRecords_statement t conds upds) (store c))"
    unfolding session by (simp add: pool_query_def split: prod.splits)
  have success: "updateRecords t pool conds upds c
          = (Inr (RowArray (rows result)),
             c\<lparr>store := s', issued := issued c @ [updateRecords_statement t conds upds]\<rparr>)"
    if "pool (updateRecords_statement t conds upds) (store c) = (Inr result, s')"
    using that by (simp add: updateRecords_def pool_query_Inr)
  show ?thesis
    using form session store success issued_updateRecords [of t pool conds upds c] by blast
qed

text \<open>
  The theorem at \<^verbatim>\<open>updateRecords('users', pool, {id: 1}, {name: 'Bob', age: 3})\<close> and at
  \<^verbatim>\<open>updateRecords('users', pool, {}, {name: 'Bob'})\<close> on the table of two rows: both
  rows are renamed in the store, and both are returned.
\<close>

theorem updateRecords_statement_form_witness:
  "updateRecords_statement ''users'' [(''id'', JNum 1)] [(''name'', JStr ''Bob''), (''age'', JNum 3)]
     = (''UPDATE users SET name = $1, age = $2 WHERE id = $3 RETURNING * '', [JStr ''Bob'', JNum 3, JNum 1])
   \<and> updateRecords_statement ''users'' [] [(''name'', JStr ''Bob'')]
     = (''UPDATE users SET name = $1  RETURNING * '', [JStr ''Bob''])
   \<and> rename_all_pool (updateRecords_statement ''users'' [] [(''name'', JStr ''Bob'')]) two_users
     = (Inr \<lparr>rows = [[(''id'', JNum 1), (''name'', JStr ''Bob'')], [(''id'', JNum 2), (''name'', JStr ''Bob'')]],
              rowCount = 2\<rparr>,
        [[(''id'', JNum 1), (''name'', JStr ''Bob'')], [(''id'', JNum 2), (''name'', JStr ''Bob'')]])
   \<and> updateRecords ''users'' rename_all_pool [] [(''name'', JStr ''Bob'')] \<lparr>store = two_users, issued = []\<rparr>
     = (Inr (RowArray [[(''id'', JNum 1), (''name'', JStr ''Bob'')], [(''id'', JNum 2), (''name'', JStr ''Bob'')]]),
        \<lparr>store = [[(''id'', JNum 1), (''name'', JStr ''Bob'')], [(''id'', JNum 2), (''name'', JStr ''Bob'')]],
         issued = [(''UPDATE users SET name = $1  RETURNING * '', [JStr ''Bob''])]\<rparr>)"
proof -
  have set2: "spec_equalities 0 [''name'', ''age''] = [''name = $1'', ''age = $2'']"
    by code_simp
  have where3: "spec_equalities (Suc (Suc 0)) [''id''] = [''id = $3'']"
    by code_simp
  have set1: "spec_equalities 0 [''name''] = [''name = $1'']"
    by code_simp
  have engine: "rename_all_pool (''UPDATE users SET name = $1  RETURNING * '', [JStr ''Bob'']) two_users
     = (Inr \<lparr>rows = [[(''id'', JNum 1), (''name'', JStr ''Bob'')], [(''id'', JNum 2), (''name'', JStr ''Bob'')]],
              rowCount = 2\<rparr>,
        [[(''id'', JNum 1), (''name'', JStr ''Bob'')], [(''id'', JNum 2), (''name'', JStr ''Bob'')]])"
    by (simp add: rename_all_pool_def two_users_def set_column_def Let_def)
  show ?thesis
    using updateRecords_statement_form [of "''users''" "[(''id'', JNum 1)]"
            "[(''name'', JStr ''Bob''), (''age'', JNum 3)]" rename_all_pool "\<lparr>store = two_users, issued = []\<rparr>"]
          updateRecords_statement_form [of "''users''" "[]" "[(''name'', JStr ''Bob'')]"
            rename_all_pool "\<lparr>store = two_users, issued = []\<rparr>"
            "\<lparr>rows = [[(''id'', JNum 1), (''name'', JStr ''Bob'')], [(''id'', JNum 2), (''name'', JStr ''Bob'')]],
              rowCount = 2\<rparr>"
            "[[(''id'', JNum 1), (''name'', JStr ''Bob'')], [(''id'', JNum 2), (''name'', JStr ''Bob'')]]"]
    by (simp add: set2 where3 set1 engine)
qed

text \<open>
  C5. When the catalog query fails, \<open>checkDatabaseExists\<close> swallows the error and
  returns false, while \<open>checkTableExists\<close> re-throws the very error the pool rejected
  with; when the query succeeds, both return true exactly when the result reports at
  least one matching catalog row.
\<close>

theorem exists_checks_error_asymmetry:
  "(pool (checkDatabaseExists_statement name) (store c) = (Inl e, s') \<longrightarrow>
      fst (checkDatabaseExists name pool c) = Inr False)
   \<and> (pool (checkTableExists_statement name schema) (store c) = (Inl e, s') \<longrightarrow>
      fst (checkTableExists name pool schema c) = Inl e)
   \<and> (pool (checkDatabaseExists_statement name) (store c) = (Inr r, s') \<longrightarrow>
      fst (checkDatabaseExists name pool c) = Inr (0 < rowCount r))
   \<and> (pool (checkTableExists_statement name schema) (store c) = (Inr r, s') \<longrightarrow>
      fst (checkTableExists name pool schema c) = Inr (0 < rowCount r))"
  by (simp add: checkDatabaseExists_def checkTableExists_def pool_query_Inr pool_query_Inl)

text \<open>The theorem at a pool that rejects, at one that finds a row and at one that finds none.\<close>

theorem exists_checks_error_asymmetry_witness:
  "fst (checkDatabaseExists ''shop'' (rejecting_pool (DatabaseError ''boom'' ''XX000'')) fresh) = Inr False
   \<and> fst (checkTableExists ''shop'' (rejecting_pool (DatabaseError ''boom'' ''XX000'')) None fresh)
       = Inl (DatabaseError ''boom'' ''XX000'')
   \<and> fst (checkDatabaseExists ''shop'' (resolving_pool \<lparr>rows = [[(''?column?'', JNum 1)]], rowCount = 1\<rparr>) fresh)
       = Inr True
   \<and> fst (checkTableExists ''shop'' (resolving_pool \<lparr>rows = [], rowCount = 0\<rparr>) (Some ''public'') fresh)
       = Inr False"
  using exists_checks_error_asymmetry [of "rejecting_pool (DatabaseError ''boom'' ''XX000'')" "''shop''" fresh
          "DatabaseError ''boom'' ''XX000''" "()" None]
        exists_checks_error_asymmetry [of "resolving_pool \<lparr>rows = [[(''?column?'', JNum 1)]], rowCount = 1\<rparr>"
          "''shop''" fresh _ "()" _ "\<lparr>rows = [[(''?column?'', JNum 1)]], rowCount = 1\<rparr>"]
        exists_checks_error_asymmetry [of "resolving_pool \<lparr>rows = [], rowCount = 0\<rparr>"
          "''shop''" fresh _ "()" "Some ''public''" "\<lparr>rows = [], rowCount = 0\<rparr>"]
  by (simp add: rejecting_pool_def resolving_pool_def)

text \<open>
  C6. The statement \<open>addRow\<close> builds is
  \<^verbatim>\<open>INSERT INTO <table> (<columns>) VALUES (<values>) RETURNING *\<close>: the columns are
  the keys of the data object in iteration order, every value stands in the text
  between two apostrophes, and the parameter list is empty. It is the one statement
  \<open>addRow\<close> issues, and when the pool resolves, the result is the first row of
  \<^verbatim>\<open>result.rows\<close> (undefined if the pool returned no row).
\<close>

theorem addRow_embeds_quoted_literals:
  "addRow_statement t data =
     (''INSERT INTO '' @ t @ '' ('' @ join '', '' (map fst data) @ '') VALUES (''
        @ join '', '' (map (\<lambda>(col, v). [CHR 0x27] @ toString v @ [CHR 0x27]) data)
        @ '') RETURNING *'',
      [])
   \<and> issued (snd (addRow t data pool c)) = issued c @ [addRow_statement t data]
   \<and> (pool (addRow_statement t data) (store c) = (Inr result, s') \<longrightarrow>
        fst (addRow t data pool c) = Inr (case rows result of [] \<Rightarrow> Undefined | r # _ \<Rightarrow> RowObject r))"
proof -
  have m: "map (\<lambda>value. apostrophe @ toString value @ apostrophe) (map snd data)
         = map (\<lambda>(col, v). [CHR 0x27] @ toString v @ [CHR 0x27]) data"
    by (simp add: apostrophe_def case_prod_unfold)
  have 1: "addRow_statement t data =
     (''INSERT INTO '' @ t @ '' ('' @ join '', '' (map fst data) @ '') VALUES (''
        @ join '', '' (map (\<lambda>(col, v). [CHR 0x27] @ toString v @ [CHR 0x27]) data)
        @ '') RETURNING *'',
      [])"
    unfolding addRow_statement_def Object_keys_def Object_values_def m by (simp add: Let_def)
  have 3: "fst (addRow t data pool c) = Inr (case rows result of [] \<Rightarrow> Undefined | r # _ \<Rightarrow> RowObject r)"
    if "pool (addRow_statement t data) (store c) = (Inr result, s')"
    using that by (simp add: addRow_def pool_query_Inr rows_at_def split: list.splits)
  show ?thesis
    using 1 3 issued_addRow [of t data pool c] by simp
qed

text \<open>The theorem at \<^verbatim>\<open>addRow('users', {name: 'Alice'}, pool)\<close>.\<close>

theorem addRow_embeds_quoted_literals_witness:
  "resolving_pool \<lparr>rows = [[(''id'', JNum 1), (''name'', JStr ''Alice'')]], rowCount = 1\<rparr>
       (addRow_statement ''users'' [(''name'', JStr ''Alice'')]) (store fresh)
     = (Inr \<lparr>rows = [[(''id'', JNum 1), (''name'', JStr ''Alice'')]], rowCount = 1\<rparr>, ())
   \<and> addRow_statement ''users'' [(''name'', JStr ''Alice'')]
     = (''INSERT INTO users (name) VALUES ('' @ [CHR 0x27] @ ''Alice'' @ [CHR 0x27] @ '') RETURNING *'', [])
   \<and> fst (addRow ''users'' [(''name'', JStr ''Alice'')]
            (resolving_pool \<lparr>rows = [[(''id'', JNum 1), (''name'', JStr ''Alice'')]], rowCount = 1\<rparr>) fresh)
     = Inr (RowObject [(''id'', JNum 1), (''name'', JStr ''Alice'')])"
  using addRow_embeds_quoted_literals [of "''users''" "[(''name'', JStr ''Alice'')]"
      "resolving_pool \<lparr>rows = [[(''id'', JNum 1), (''name'', JStr ''Alice'')]], rowCount = 1\<rparr>" fresh
      "\<lparr>rows = [[(''id'', JNum 1), (''name'', JStr ''Alice'')]], rowCount = 1\<rparr>" "()"]
  by (simp add: resolving_pool_def)

text \<open>
  C7. In the statement \<open>getEntry\<close> builds, the \<^verbatim>\<open>WHERE\<close> fragment is
  \<^verbatim>\<open>col1 = $1 AND col2 = $2 ...\<close> over the conditions in iteration order, with the
  condition values as the parameter list in the same order, and is the empty string
  for the empty condition object; the \<^verbatim>\<open>ORDER BY\<close> fragment is
  \<^verbatim>\<open>ORDER BY col1 dir1, col2 dir2 ...\<close> and is left out when the sort object is absent
  or empty. This statement is the one statement \<open>getEntry\<close> issues.
\<close>

theorem getEntry_where_and_order_fragments:
  "getEntry_statement t conds opts =
     (''SELECT '' @ getEntry_fields opts @ '' FROM '' @ t @ '' ''
        @ (if conds = [] then [] else ''WHERE '' @ join '' AND '' (spec_equalities 0 (map fst conds)))
        @ '' ''
        @ (case sort_option opts of
             None \<Rightarrow> []
           | Some [] \<Rightarrow> []
           | Some (item # items) \<Rightarrow>
               ''ORDER BY '' @ join '', '' (map (\<lambda>(col, dir). col @ '' '' @ dir) (item # items)))
        @ '' LIMIT '' @ show_int (getEntry_limit opts),
      map snd conds)
   \<and> issued (snd (getEntry t conds pool opts c)) = issued c @ [getEntry_statement t conds opts]"
proof -
  have "getEntry_statement t conds opts =
     (''SELECT '' @ getEntry_fields opts @ '' FROM '' @ t @ '' ''
        @ (if conds = [] then [] else ''WHERE '' @ join '' AND '' (spec_equalities 0 (map fst conds)))
        @ '' ''
        @ (case sort_option opts of
             None \<Rightarrow> []
           | Some [] \<Rightarrow> []
           | Some (item # items) \<Rightarrow>
               ''ORDER BY '' @ join '', '' (map (\<lambda>(col, dir). col @ '' '' @ dir) (item # items)))
        @ '' LIMIT '' @ show_int (getEntry_limit opts),
      map snd conds)"
    unfolding getEntry_statement_def forEach_condition_spec
    by (simp add: spec_equalities_Nil_iff Object_entries_def join_Cons_nonempty Let_def
             split: option.splits list.splits)
  then show ?thesis
    using issued_getEntry [of t conds pool opts c] by simp
qed

text \<open>The theorem at two conditions with two sort keys, and at no condition with an empty sort object.\<close>

theorem getEntry_where_and_order_fragments_witness:
  "getEntry_statement ''users'' [(''id'', JNum 1), (''name'', JStr ''Al'')]
       (no_options\<lparr>sort_option := Some [(''id'', ''asc''), (''name'', ''desc'')]\<rparr>)
     = (''SELECT * FROM users WHERE id = $1 AND name = $2 ORDER BY id asc, name desc LIMIT 1'',
        [JNum 1, JStr ''Al''])
   \<and> getEntry_statement ''users'' [] (no_options\<lparr>sort_option := Some []\<rparr>)
     = (''SELECT * FROM users   LIMIT 1'', [])"
proof -
  have eqs: "spec_equalities 0 [''id'', ''name''] = [''id = $1'', ''name = $2'']"
    by code_simp
  have one: "show_int 1 = ''1''"
    by code_simp
  show ?thesis
    using getEntry_where_and_order_fragments [of "''users''" "[(''id'', JNum 1), (''name'', JStr ''Al'')]"
            "no_options\<lparr>sort_option := Some [(''id'', ''asc''), (''name'', ''desc'')]\<rparr>"
            "resolving_pool \<lparr>rows = [], rowCount = 0\<rparr>" fresh]
          getEntry_where_and_order_fragments [of "''users''" "[]" "no_options\<lparr>sort_option := Some []\<rparr>"
            "resolving_pool \<lparr>rows = [], rowCount = 0\<rparr>" fresh]
    by (simp add: eqs one no_options_def getEntry_fields_def getEntry_limit_def)
qed

text \<open>
  C8, as the specification states it, has the wrapped message of all three of
  \<open>getEntry\<close>, \<open>deleteEntry\<close> and \<open>updateRecords\<close> name the table. The message of
  \<open>updateRecords\<close> is \<^verbatim>\<open>Failed to update records: <underlying message>\<close>: for the
  table \<^verbatim>\<open>users\<close> and a pool that rejects with \<^verbatim>\<open>boom\<close>, the table name occurs
  nowhere in it.
\<close>

theorem updateRecords_error_omits_table_counterexample:
  "fst (updateRecords ''users'' (rejecting_pool (DatabaseError ''boom'' ''XX000''))
          [(''id'', JNum 1)] [(''name'', JStr ''Bob'')] fresh)
     = Inl (Error ''Failed to update records: boom'')
   \<and> \<not> sublist ''users'' ''Failed to update records: boom''"
  by code_simp

text \<open>
  C8, amended. When the query fails, \<open>getEntry\<close> raises a new error with the message
  \<^verbatim>\<open>Failed to retrieve entry from <table>: <underlying message>\<close>, \<open>deleteEntry\<close> one
  with \<^verbatim>\<open>Failed to delete entry from <table>: <underlying message>\<close>, and
  \<open>updateRecords\<close> one with \<^verbatim>\<open>Failed to update records: <underlying message>\<close>, which
  does not name the table; \<open>checkTableExists\<close>, \<open>createTable\<close>, \<open>getAllFromTable\<close> and
  \<open>addRow\<close> raise the error the pool rejected with, unchanged.
\<close>

theorem query_failure_propagation:
  "(pool (getEntry_statement t conds opts) (store c) = (Inl e, s') \<longrightarrow>
      fst (getEntry t conds pool opts c)
        = Inl (Error (''Failed to retrieve entry from '' @ t @ '': '' @ message e)))
   \<and> (deleteEntry_statement t conds opts = Inr q \<and> pool q (store c) = (Inl e, s') \<longrightarrow>
      fst (deleteEntry t conds pool opts c)
        = Inl (Error (''Failed to delete entry from '' @ t @ '': '' @ message e)))
   \<and> (pool (updateRecords_statement t conds upds) (store c) = (Inl e, s') \<longrightarrow>
      fst (updateRecords t pool conds upds c) = Inl (Error (''Failed to update records: '' @ message e)))
   \<and> (pool (checkTableExists_statement t schema) (store c) = (Inl e, s') \<longrightarrow>
      fst (checkTableExists t pool schema c) = Inl e)
   \<and> (pool (createTable_statement t columnsDefinition) (store c) = (Inl e, s') \<longrightarrow>
      fst (createTable t pool columnsDefinition c) = Inl e)
   \<and> (pool (getAllFromTable_statement t) (store c) = (Inl e, s') \<longrightarrow>
      fst (getAllFromTable t pool c) = Inl e)
   \<and> (pool (addRow_statement t data) (store c) = (Inl e, s') \<longrightarrow>
      fst (addRow t data pool c) = Inl e)"
  by (simp add: getEntry_def deleteEntry_def updateRecords_def checkTableExists_def createTable_def
        getAllFromTable_def addRow_def pool_query_Inl)

text \<open>The theorem at a pool that rejects every statement with a driver error \<^verbatim>\<open>boom\<close>.\<close>

theorem query_failure_propagation_witness:
  "fst (getEntry ''users'' [(''id'', JNum 1)] (rejecting_pool (DatabaseError ''boom'' ''XX000'')) no_options fresh)
     = Inl (Error ''Failed to retrieve entry from users: boom'')
   \<and> fst (deleteEntry ''users'' [(''id'', JNum 1)] (rejecting_pool (DatabaseError ''boom'' ''XX000'')) no_options fresh)
     = Inl (Error ''Failed to delete entry from users: boom'')
   \<and> fst (updateRecords ''users'' (rejecting_pool (DatabaseError ''boom'' ''XX000''))
            [(''id'', JNum 1)] [(''name'', JStr ''Bob'')] fresh)
     = Inl (Error ''Failed to update records: boom'')
   \<and> fst (checkTableExists ''users'' (rejecting_pool (DatabaseError ''boom'' ''XX000'')) None fresh)
     = Inl (DatabaseError ''boom'' ''XX000'')
   \<and> fst (createTable ''users'' (rejecting_pool (DatabaseError ''boom'' ''XX000'')) ''id SERIAL PRIMARY KEY'' fresh)
     = Inl (DatabaseError ''boom'' ''XX000'')
   \<and> fst (getAllFromTable ''users'' (rejecting_pool (DatabaseError ''boom'' ''XX000'')) fresh)
     = Inl (DatabaseError ''boom'' ''XX000'')
   \<and> fst (addRow ''users'' [(''name'', JStr ''Alice'')] (rejecting_pool (DatabaseError ''boom'' ''XX000'')) fresh)
     = Inl (DatabaseError ''boom'' ''XX000'')"
proof -
  have del: "deleteEntry_statement ''users'' [(''id'', JNum 1)] no_options
               = Inr (''DELETE FROM users WHERE id = $1 '', [JNum 1])"
    by code_simp
  show ?thesis
    using query_failure_propagation [of "rejecting_pool (DatabaseError ''boom'' ''XX000'')" "''users''"
        "[(''id'', JNum 1)]" no_options fresh "DatabaseError ''boom'' ''XX000''" "()"
        "(''DELETE FROM users WHERE id = $1 '', [JNum 1])" "[(''name'', JStr ''Bob'')]" None
        "''id SERIAL PRIMARY KEY''" "[(''name'', JStr ''Alice'')]"]
    by (simp add: rejecting_pool_def del)
qed

text \<open>
  C9. When its query succeeds, \<open>getAllFromTable\<close> returns the array \<^verbatim>\<open>result.rows\<close>
  as the pool produced it: for a result with no row it returns the empty array, not
  null and not an error, whereas \<open>getEntry\<close> returns null when its result has no row.
\<close>

theorem getAllFromTable_returns_rows_unchanged:
  "(pool (getAllFromTable_statement t) (store c) = (Inr result, s') \<longrightarrow>
      fst (getAllFromTable t pool c) = Inr (RowArray (rows result)))
   \<and> (pool (getAllFromTable_statement t) (store c) = (Inr result, s') \<and> rows result = [] \<longrightarrow>
      fst (getAllFromTable t pool c) = Inr (RowArray []))
   \<and> (pool (getEntry_statement t conds opts) (store c) = (Inr result, s') \<and> rows result = [] \<longrightarrow>
      fst (getEntry t conds pool opts c) = Inr Null)"
  by (simp add: getAllFromTable_def getEntry_def pool_query_Inr)

text \<open>The theorem at an empty table.\<close>

theorem getAllFromTable_returns_rows_unchanged_witness:
  "fst (getAllFromTable ''users'' (resolving_pool \<lparr>rows = [], rowCount = 0\<rparr>) fresh) = Inr (RowArray [])
   \<and> fst (getEntry ''users'' [] (resolving_pool \<lparr>rows = [], rowCount = 0\<rparr>) no_options fresh) = Inr Null"
  using getAllFromTable_returns_rows_unchanged [of "resolving_pool \<lparr>rows = [], rowCount = 0\<rparr>" "''users''" fresh
      "\<lparr>rows = [], rowCount = 0\<rparr>" "()" "[]" no_options]
  by (simp add: resolving_pool_def)

text \<open>
  C10. When the query of \<open>updateRecords\<close> succeeds, the result is the array
  \<^verbatim>\<open>result.rows\<close>; when no row matched, that is the empty array, not null and not an
  error.
\<close>

theorem updateRecords_zero_match_returns_empty_array:
  "(pool (updateRecords_statement t conds upds) (store c) = (Inr result, s') \<longrightarrow>
      fst (updateRecords t pool conds upds c) = Inr (RowArray (rows result)))
   \<and> (pool (updateRecords_statement t conds upds) (store c) = (Inr result, s') \<and> rows result = [] \<longrightarrow>
      fst (updateRecords t pool conds upds c) = Inr (RowArray [])
      \<and> fst (updateRecords t pool conds upds c) \<noteq> Inr Null
      \<and> (\<forall>err. fst (updateRecords t pool conds upds c) \<noteq> Inl err))"
  by (simp add: updateRecords_def pool_query_Inr)

text \<open>The theorem at an update by \<^verbatim>\<open>{id: 99}\<close> that matches no row.\<close>

theorem updateRecords_zero_match_returns_empty_array_witness:
  "resolving_pool \<lparr>rows = [], rowCount = 0\<rparr>
       (updateRecords_statement ''users'' [(''id'', JNum 99)] [(''name'', JStr ''Bob'')]) (store fresh)
     = (Inr \<lparr>rows = [], rowCount = 0\<rparr>, ())
   \<and> fst (updateRecords ''users'' (resolving_pool \<lparr>rows = [], rowCount = 0\<rparr>)
            [(''id'', JNum 99)] [(''name'', JStr ''Bob'')] fresh) = Inr (RowArray [])"
  using updateRecords_zero_match_returns_empty_array [of "resolving_pool \<lparr>rows = [], rowCount = 0\<rparr>" "''users''"
      "[(''id'', JNum 99)]" "[(''name'', JStr ''Bob'')]" fresh "\<lparr>rows = [], rowCount = 0\<rparr>" "()"]
  by (simp add: resolving_pool_def)

end
